theory Spec2Isabelle
  imports Complex_Main "HOL-Library.Sublist"
begin

section \<open>Python values, errors and strings\<close>

text \<open>
  The scraper is Python. Every exception the modelled code can raise is a value of
  \<open>error\<close>; a computation that may raise returns \<open>error + 'a\<close> with \<open>Inl\<close> the
  exception. \<open>ParserError\<close> is \<open>dateutil\<close>'s, the others are built in.
\<close>

datatype error = ParserError | ValueError | OverflowError | IndexError | KeyError
  | TypeError | AttributeError

definition bind_err :: "error + 'a \<Rightarrow> ('a \<Rightarrow> error + 'b) \<Rightarrow> error + 'b" where
  "bind_err m f = (case m of Inl e \<Rightarrow> Inl e | Inr x \<Rightarrow> f x)"

text \<open>\<open>xs[i]\<close> for a non-negative index and \<open>xs[-1]\<close>: both raise IndexError out of range.\<close>

definition nth_err :: "'a list \<Rightarrow> nat \<Rightarrow> error + 'a" where
  "nth_err xs i = (if i < length xs then Inr (xs ! i) else Inl IndexError)"

definition last_err :: "'a list \<Rightarrow> error + 'a" where
  "last_err xs = (case xs of [] \<Rightarrow> Inl IndexError | _ # _ \<Rightarrow> Inr (last xs))"

text \<open>
  Text is a list of characters with the code points 0 to 255. White space is what
  \<open>str.isspace\<close> holds of in that range: the controls 9 to 13 and 28 to 31, the
  space, the next-line control 0x85 and the no-break space 0xA0. Numeric is what
  \<open>str.isnumeric\<close> holds of: the ten digits, the superscripts 0xB2, 0xB3 and 0xB9
  and the fractions 0xBC to 0xBE. Only the ten digits are decimal, which is what
  \<open>int\<close> accepts.
\<close>

definition isspace :: "char \<Rightarrow> bool" where
  "isspace c =
     (let n = (of_char c :: nat)
      in (9 \<le> n \<and> n \<le> 13) \<or> (28 \<le> n \<and> n \<le> 32) \<or> n = 133 \<or> n = 160)"

definition isdecimal_char :: "char \<Rightarrow> bool" where
  "isdecimal_char c = (let n = (of_char c :: nat) in 48 \<le> n \<and> n \<le> 57)"

definition isnumeric_char :: "char \<Rightarrow> bool" where
  "isnumeric_char c =
     (let n = (of_char c :: nat)
      in (48 \<le> n \<and> n \<le> 57) \<or> n = 178 \<or> n = 179 \<or> n = 185 \<or> (188 \<le> n \<and> n \<le> 190))"

text \<open>At least one character, all of them decimal digits.\<close>

definition isdecimal :: "string \<Rightarrow> bool" where
  "isdecimal s = (s \<noteq> [] \<and> list_all isdecimal_char s)"

text \<open>\<open>str.isnumeric()\<close>: at least one character, all of them numeric.\<close>

definition isnumeric :: "string \<Rightarrow> bool" where
  "isnumeric s = (s \<noteq> [] \<and> list_all isnumeric_char s)"

text \<open>\<open>str.strip()\<close> without argument.\<close>

definition strip :: "string \<Rightarrow> string" where
  "strip s = rev (dropWhile isspace (rev (dropWhile isspace s)))"

text \<open>
  \<open>str.split(sep)\<close> for a separator given as a literal: the text between the
  non-overlapping occurrences of \<open>sep\<close>, found from the left. Python raises ValueError
  on an empty separator; the source only passes non-empty literals, and here an empty
  separator never matches.
\<close>

function split_acc :: "string \<Rightarrow> string \<Rightarrow> string \<Rightarrow> string list" where
  "split_acc sep acc [] = [rev acc]"
| "split_acc sep acc (c # cs) =
     (if sep \<noteq> [] \<and> prefix sep (c # cs)
      then rev acc # split_acc sep [] (drop (length sep) (c # cs))
      else split_acc sep (c # acc) cs)"
  by pat_completeness auto
termination
  by (relation "measure (\<lambda>(sep, acc, s). length s)") auto

definition split_on :: "string \<Rightarrow> string \<Rightarrow> string list" where
  "split_on sep s = split_acc sep [] s"

text \<open>\<open>str.split()\<close> without argument: the maximal runs of non-space characters.\<close>

fun split_ws_acc :: "string \<Rightarrow> string \<Rightarrow> string list" where
  "split_ws_acc acc [] = (if acc = [] then [] else [rev acc])"
| "split_ws_acc acc (c # cs) =
     (if isspace c then (if acc = [] then split_ws_acc [] cs else rev acc # split_ws_acc [] cs)
      else split_ws_acc (c # acc) cs)"

definition split_ws :: "string \<Rightarrow> string list" where
  "split_ws s = split_ws_acc [] s"

text \<open>\<open>str.replace(old, new)\<close> for a non-empty literal \<open>old\<close>.\<close>

function replace_all :: "string \<Rightarrow> string \<Rightarrow> string \<Rightarrow> string" where
  "replace_all old new [] = []"
| "replace_all old new (c # cs) =
     (if old \<noteq> [] \<and> prefix old (c # cs)
      then new @ replace_all old new (drop (length old) (c # cs))
      else c # replace_all old new cs)"
  by pat_completeness auto
termination
  by (relation "measure (\<lambda>(old, new, s). length s)") auto

text \<open>\<open>sub in s\<close> on strings.\<close>

fun str_contains :: "string \<Rightarrow> string \<Rightarrow> bool" where
  "str_contains sub [] = (sub = [])"
| "str_contains sub (c # cs) = (prefix sub (c # cs) \<or> str_contains sub cs)"

definition startswith :: "string \<Rightarrow> string \<Rightarrow> bool" where
  "startswith s p = prefix p s"

definition endswith :: "string \<Rightarrow> string \<Rightarrow> bool" where
  "endswith s p = suffix p s"

definition upper_char :: "char \<Rightarrow> char" where
  "upper_char c = (let n = (of_char c :: nat) in if 97 \<le> n \<and> n \<le> 122 then char_of (n - 32) else c)"

definition lower_char :: "char \<Rightarrow> char" where
  "lower_char c = (let n = (of_char c :: nat) in if 65 \<le> n \<and> n \<le> 90 then char_of (n + 32) else c)"

text \<open>
  \<open>str.capitalize()\<close>: the first character in upper case, the others in lower case.
  The letters a to z and A to Z have a case here, which covers the colour tokens.
\<close>

definition capitalize :: "string \<Rightarrow> string" where
  "capitalize s = (case s of [] \<Rightarrow> [] | c # cs \<Rightarrow> upper_char c # map lower_char cs)"

text \<open>
  \<open>int(s)\<close> on text: surrounding white space is ignored, one sign is allowed, and the
  decimal digits may be grouped by single underscores. Anything else raises
  ValueError, a numeric character that is not a decimal digit included.
\<close>

definition digit_val :: "char \<Rightarrow> int" where
  "digit_val c = int (of_char c) - 48"

definition digits_val :: "string \<Rightarrow> int" where
  "digits_val ds = foldl (\<lambda>a c. 10 * a + digit_val c) 0 ds"

definition int_body :: "string \<Rightarrow> error + int" where
  "int_body b =
     (let groups = split_on ''_'' b
      in if list_all isdecimal groups then Inr (digits_val (concat groups)) else Inl ValueError)"

definition py_int :: "string \<Rightarrow> error + int" where
  "py_int s =
     (case strip s of
        [] \<Rightarrow> Inl ValueError
      | c # cs \<Rightarrow>
          if c = CHR ''-'' then bind_err (int_body cs) (\<lambda>n. Inr (- n))
          else if c = CHR ''+'' then int_body cs
          else int_body (c # cs))"

section \<open>The document tree and the helpers of the utilities module\<close>

text \<open>
  A tag of the parsed page is its attributes; \<open>tag['k']\<close> raises KeyError when the
  attribute is missing. A table cell is what the builder reads of a \<open>td\<close>: its text,
  the \<open>a\<close> tags and the \<open>img\<close> tags below it, in document order (\<open>find_all\<close>); the
  attribute \<open>.img\<close> of a cell is the first of its images, or None.
\<close>

type_synonym tag = "(string \<times> string) list"

definition tag_get :: "tag \<Rightarrow> string \<Rightarrow> error + string" where
  "tag_get t k = (case map_of t k of None \<Rightarrow> Inl KeyError | Some v \<Rightarrow> Inr v)"

record cell =
  cell_text :: string
  cell_links :: "tag list"
  cell_imgs :: "tag list"

definition first_img :: "tag list \<Rightarrow> tag option" where
  "first_img imgs = (case imgs of [] \<Rightarrow> None | i # _ \<Rightarrow> Some i)"

record date =
  year :: int
  month :: int
  day :: int

text \<open>
  Modelled from the spec: the module \<open>utilities\<close> that the source imports is not part of
  the sources at hand, so its helper functions and its tables are parameters of the
  model, and so are \<open>dateutil\<close>'s \<open>parse\<close> and Python's \<open>float\<close>, whose values are of
  an arbitrary type \<open>'f\<close>. The result types follow the data model of the specification:
  a race identifier is an integer, a country code, a profile and a stage number may be
  absent.
\<close>

record 'f utilities =
  parse :: "string \<Rightarrow> error + date"
  py_float :: "string \<Rightarrow> error + 'f"
  race_link_to_race_id :: "tag \<Rightarrow> error + int"
  race_link_to_stage_num :: "tag \<Rightarrow> error + int option"
  img_to_country_code :: "tag option \<Rightarrow> error + string option"
  img_to_profile :: "tag option \<Rightarrow> error + string option"
  rider_link_to_id :: "tag option \<Rightarrow> error + int"
  uci_categories :: "string list"
  championships_categories :: "string list"
  U23_categories :: "string list"
  one_day_categories :: "string list"
  colour_icons :: "string list"
  profile_icon_map :: "string \<rightharpoonup> string"

section \<open>RiderResult: one record for one row of the results table\<close>

datatype position = Rank int | Label string

datatype 'f number = IntV int | FloatV 'f

text \<open>
  The attributes of a RiderResult. The last four are set on some rows only: \<open>None\<close> is
  an attribute that was never assigned, \<open>Some v\<close> one that holds \<open>v\<close>.
\<close>

record 'f rider_result =
  date :: date
  result :: position
  gc_standing :: "int option"
  icon :: "string option"
  cat :: string
  uci_points :: "'f number option"
  race_id :: int
  race_country_code :: "string option"
  full_name :: string
  name :: string
  edition_country_code :: "string option option"
  edition_city :: "string option"
  stage_num :: "int option option"
  classification :: "string option"

text \<open>Lines 176 to 183: the date, with the handler for \<open>ParserError\<close> only.\<close>

definition fix_component :: "string \<Rightarrow> error + string" where
  "fix_component c = bind_err (py_int c) (\<lambda>n. Inr (if n = 0 then ''01'' else c))"

definition parse_date :: "'f utilities \<Rightarrow> string \<Rightarrow> error + date" where
  "parse_date U txt =
     (case parse U txt of
        Inr d \<Rightarrow> Inr d
      | Inl e \<Rightarrow>
          if e = ParserError then
            (case split_on ''-'' txt of
               [y, m, d] \<Rightarrow>
                 bind_err (fix_component m) (\<lambda>m'.
                 bind_err (fix_component d) (\<lambda>d'.
                   parse U (y @ ''-'' @ m' @ ''-'' @ d')))
             | _ \<Rightarrow> Inl ValueError)
          else Inl e)"

text \<open>Lines 186 to 190: the plain fields.\<close>

definition result_of :: "string \<Rightarrow> error + position" where
  "result_of t = (if isnumeric t then bind_err (py_int t) (\<lambda>n. Inr (Rank n)) else Inr (Label t))"

definition gc_standing_of :: "string \<Rightarrow> error + int option" where
  "gc_standing_of t = (if t \<noteq> [] then bind_err (py_int t) (\<lambda>n. Inr (Some n)) else Inr None)"

definition icon_of :: "cell \<Rightarrow> error + string option" where
  "icon_of c =
     (case first_img (cell_imgs c) of
        None \<Rightarrow> Inr None
      | Some i \<Rightarrow>
          bind_err (tag_get i ''src'') (\<lambda>s.
          bind_err (last_err (split_on ''/'' s)) (\<lambda>f. Inr (Some f))))"

definition uci_points_of :: "'f utilities \<Rightarrow> cell option \<Rightarrow> error + 'f number option" where
  "uci_points_of U uci =
     (case uci of
        None \<Rightarrow> Inr None
      | Some c \<Rightarrow>
          if cell_text c \<noteq> ''-'' then bind_err (py_float U (cell_text c)) (\<lambda>f. Inr (Some (FloatV f)))
          else Inr (Some (IntV 0)))"

text \<open>Lines 197 and 198: the name of the race and its tokens.\<close>

definition full_name_of :: "string \<Rightarrow> string" where
  "full_name_of t =
     replace_all [CHR 0x0D] [] (replace_all [CHR 0x09] [] (replace_all [CHR 0x0A] '' '' (strip t)))"

definition tokens_of :: "string \<Rightarrow> string list" where
  "tokens_of fn = map strip (split_on ''|'' fn)"

text \<open>Lines 200 to 207: championship, then stage, then classification.\<close>

definition classify_name ::
  "'f utilities \<Rightarrow> tag list \<Rightarrow> tag list \<Rightarrow> string list \<Rightarrow> 'f rider_result \<Rightarrow> error + 'f rider_result"
where
  "classify_name U imgs links tokens r =
     (if length imgs = 2 then
        bind_err (nth_err imgs 1) (\<lambda>i1.
        bind_err (img_to_country_code U (Some i1)) (\<lambda>cc.
        bind_err (nth_err tokens 1) (\<lambda>city.
          Inr (r\<lparr>edition_country_code := Some cc, edition_city := Some city\<rparr>))))
      else if length links = 2 then
        bind_err (nth_err links 0) (\<lambda>l0.
        bind_err (race_link_to_stage_num U l0) (\<lambda>n.
          Inr (r\<lparr>stage_num := Some n\<rparr>)))
      else if length tokens = 2 then
        bind_err (nth_err tokens 1) (\<lambda>c. Inr (r\<lparr>classification := Some c\<rparr>))
      else Inr r)"

text \<open>
  \<open>RiderResult.__init__\<close> on the list of the row's \<open>td\<close> cells. \<open>Inr None\<close> is the
  object that returned before any attribute was set (fewer than 7 cells); the table
  drops it. More than 8 cells cannot be unpacked into the 8 names, which raises
  ValueError.
\<close>

definition RiderResult_init :: "'f utilities \<Rightarrow> cell list \<Rightarrow> error + 'f rider_result option" where
  "RiderResult_init U tds =
     (if length tds < 7 then Inr None
      else if 8 < length tds then Inl ValueError
      else
        let uci = (if length tds = 7 then None else Some (tds ! 7));
            race_td = tds ! 5
        in
          bind_err (parse_date U (cell_text (tds ! 0))) (\<lambda>d.
          bind_err (result_of (cell_text (tds ! 2))) (\<lambda>res.
          bind_err (gc_standing_of (cell_text (tds ! 3))) (\<lambda>gc.
          bind_err (icon_of (tds ! 4)) (\<lambda>ic.
          bind_err (uci_points_of U uci) (\<lambda>pts.
          bind_err (nth_err (cell_links race_td) 0) (\<lambda>l0.
          bind_err (race_link_to_race_id U l0) (\<lambda>rid.
          bind_err (nth_err (cell_imgs race_td) 0) (\<lambda>i0.
          bind_err (img_to_country_code U (Some i0)) (\<lambda>cc.
            let fn = full_name_of (cell_text race_td);
                tokens = tokens_of fn
            in
              bind_err (nth_err tokens 0) (\<lambda>nm.
              bind_err
                (classify_name U (cell_imgs race_td) (cell_links race_td) tokens
                   \<lparr>date = d, result = res, gc_standing = gc, icon = ic,
                    cat = cell_text (tds ! 6), uci_points = pts, race_id = rid,
                    race_country_code = cc, full_name = fn, name = nm,
                    edition_country_code = None, edition_city = None,
                    stage_num = None, classification = None\<rparr>)
                (\<lambda>r. Inr (Some r)))))))))))))"

section \<open>The race information of the side table\<close>

text \<open>
  The side table is read twice by the source: \<open>details\<close> maps each key to the text of
  its value and \<open>soup_details\<close> maps it to the \<open>tr\<close> of the table. A row of the model
  holds both: the text, the images of the \<open>tr\<close> (each with the node that follows it)
  and the first link of the \<open>tr\<close>. Looking up a key that the table lacks raises KeyError.
\<close>

datatype sibling = NoSibling | TextSibling string | TagSibling

record info_img =
  img_tag :: tag
  next_sibling :: sibling

record info_row =
  info_value :: string
  row_imgs :: "info_img list"
  row_a :: "tag option"

type_synonym info_table = "(string \<times> info_row) list"

definition has_key :: "info_table \<Rightarrow> string \<Rightarrow> bool" where
  "has_key tbl k = (map_of tbl k \<noteq> None)"

definition row_of :: "info_table \<Rightarrow> string \<Rightarrow> error + info_row" where
  "row_of tbl k = (case map_of tbl k of None \<Rightarrow> Inl KeyError | Some r \<Rightarrow> Inr r)"

definition row_img :: "info_row \<Rightarrow> tag option" where
  "row_img r = first_img (map img_tag (row_imgs r))"

record 'f race_info =
  nation :: "string option"
  start_city :: "string option"
  end_city :: "string option"
  start_date :: "date option"
  end_date :: "date option"
  distance :: "'f option"
  race_cat :: "string option"
  race_stage_num :: "int option"
  race_profile :: "string option"
  classification_leaders :: "(string \<times> int) list"

text \<open>Line 233.\<close>

definition nation_of :: "'f utilities \<Rightarrow> info_table \<Rightarrow> error + string option" where
  "nation_of U tbl =
     bind_err (row_of tbl (if has_key tbl ''Nation'' then ''Nation'' else ''Where'')) (\<lambda>r.
       img_to_country_code U (row_img r))"

text \<open>Lines 235 to 241. Unpacking a split of more than two parts raises ValueError.\<close>

definition cities_of :: "info_table \<Rightarrow> error + string option \<times> string option" where
  "cities_of tbl =
     (case map_of tbl ''Where'' of
        None \<Rightarrow> Inr (None, None)
      | Some r \<Rightarrow>
          if str_contains '' -> '' (info_value r) then
            (case split_on '' -> '' (info_value r) of
               [a, b] \<Rightarrow> Inr (Some a, Some b)
             | _ \<Rightarrow> Inl ValueError)
          else Inr (Some (info_value r), Some (info_value r)))"

text \<open>Lines 243 to 245: more than one image in the row of the nation.\<close>

definition sibling_strip :: "sibling \<Rightarrow> error + string" where
  "sibling_strip sb =
     (case sb of NoSibling \<Rightarrow> Inl AttributeError | TagSibling \<Rightarrow> Inl TypeError
      | TextSibling t \<Rightarrow> Inr (strip t))"

definition olympic_case ::
  "'f utilities \<Rightarrow> info_table \<Rightarrow> string option \<times> string option \<times> string option
     \<Rightarrow> error + string option \<times> string option \<times> string option"
where
  "olympic_case U tbl ncc =
     (case map_of tbl ''Nation'' of
        None \<Rightarrow> Inr ncc
      | Some r \<Rightarrow>
          if 1 < length (row_imgs r) then
            bind_err (last_err (row_imgs r)) (\<lambda>i.
            bind_err (img_to_country_code U (Some (img_tag i))) (\<lambda>n.
            bind_err (sibling_strip (next_sibling i)) (\<lambda>c.
              Inr (n, Some c, Some c))))
          else Inr ncc)"

text \<open>Lines 248 to 254. \<open>yr\<close> is the text of \<open>str(self.year)\<close>.\<close>

fun map_err :: "('a \<Rightarrow> error + 'b) \<Rightarrow> 'a list \<Rightarrow> error + 'b list" where
  "map_err f [] = Inr []"
| "map_err f (x # xs) = bind_err (f x) (\<lambda>y. bind_err (map_err f xs) (\<lambda>ys. Inr (y # ys)))"

definition dates_of :: "'f utilities \<Rightarrow> string \<Rightarrow> info_table \<Rightarrow> error + date option \<times> date option" where
  "dates_of U yr tbl =
     (case map_of tbl ''Date'' of
        None \<Rightarrow> Inr (None, None)
      | Some r \<Rightarrow>
          if str_contains '' - '' (info_value r) then
            bind_err (map_err (\<lambda>x. parse U (x @ '', '' @ yr)) (split_on '' - '' (info_value r)))
              (\<lambda>ds. case ds of [a, b] \<Rightarrow> Inr (Some a, Some b) | _ \<Rightarrow> Inl ValueError)
          else bind_err (parse U (info_value r @ '', '' @ yr)) (\<lambda>d. Inr (Some d, Some d)))"

text \<open>Lines 257 and 258.\<close>

definition distance_of :: "'f utilities \<Rightarrow> info_table \<Rightarrow> error + 'f option" where
  "distance_of U tbl =
     (case map_of tbl ''Distance'' of
        None \<Rightarrow> Inr None
      | Some r \<Rightarrow>
          bind_err (nth_err (split_ws (info_value r)) 0) (\<lambda>t.
          bind_err (py_float U t) (\<lambda>f. Inr (Some f))))"

definition cat_of :: "info_table \<Rightarrow> string option" where
  "cat_of tbl = map_option info_value (map_of tbl ''CAT'')"

text \<open>
  Lines 259 to 262: the number of the stage. Line 259 converts the numeric characters
  of the value first; line 261 then puts 0 for a prologue.
\<close>

definition stage_num_of :: "info_table \<Rightarrow> error + int option" where
  "stage_num_of tbl =
     (case map_of tbl ''What'' of
        None \<Rightarrow> Inr None
      | Some r \<Rightarrow>
          bind_err (py_int (filter isnumeric_char (info_value r))) (\<lambda>n.
            Inr (if str_contains ''Prologue'' (info_value r) then Some 0 else Some n)))"

text \<open>Lines 265 to 269.\<close>

definition row_profile :: "'f utilities \<Rightarrow> info_row \<Rightarrow> error + string option" where
  "row_profile U r = (case row_img r of None \<Rightarrow> Inr None | Some i \<Rightarrow> img_to_profile U (Some i))"

definition profile_of_table :: "'f utilities \<Rightarrow> info_table \<Rightarrow> error + string option" where
  "profile_of_table U tbl =
     (case map_of tbl ''Distance'' of
        Some r \<Rightarrow> row_profile U r
      | None \<Rightarrow> (case map_of tbl ''What'' of Some r \<Rightarrow> row_profile U r | None \<Rightarrow> Inr None))"

text \<open>Lines 272 to 275: the dictionary of the leaders, in the order of its insertions.\<close>

fun leaders_of :: "'f utilities \<Rightarrow> info_table \<Rightarrow> string list \<Rightarrow> error + (string \<times> int) list" where
  "leaders_of U tbl [] = Inr []"
| "leaders_of U tbl (c # cs) =
     (case map_of tbl c of
        None \<Rightarrow> leaders_of U tbl cs
      | Some r \<Rightarrow>
          bind_err (rider_link_to_id U (row_a r)) (\<lambda>i.
          bind_err (leaders_of U tbl cs) (\<lambda>ls. Inr ((c, i) # ls))))"

definition race_info_of :: "'f utilities \<Rightarrow> string \<Rightarrow> info_table \<Rightarrow> error + 'f race_info" where
  "race_info_of U yr tbl =
     bind_err (nation_of U tbl) (\<lambda>n.
     bind_err (cities_of tbl) (\<lambda>(sc, ec).
     bind_err (olympic_case U tbl (n, sc, ec)) (\<lambda>(n', sc', ec').
     bind_err (dates_of U yr tbl) (\<lambda>(sd, ed).
     bind_err (distance_of U tbl) (\<lambda>dist.
     bind_err (stage_num_of tbl) (\<lambda>sn.
     bind_err (profile_of_table U tbl) (\<lambda>pr.
     bind_err (leaders_of U tbl [''Leader'', ''Youth'', ''Points'', ''Mountain'', ''Combative'']) (\<lambda>ls.
       Inr \<lparr>nation = n', start_city = sc', end_city = ec', start_date = sd, end_date = ed,
            distance = dist, race_cat = cat_of tbl, race_stage_num = sn, race_profile = pr,
            classification_leaders = ls\<rparr>))))))))"

section \<open>The derived columns of the results dataframe\<close>

text \<open>
  Lines 295 to 323. A flag that Python holds as None, True or False is a
  \<open>bool option\<close>. The loop over \<open>colour_icons\<close> is read as the body of
  \<open>if self.icon:\<close>, which is how the lines are meant (their indentation is lost in the
  source); it leaves at the first colour found.
\<close>

record series =
  uci_race :: bool
  championship :: bool
  u23 :: bool
  cx :: bool
  juniors :: bool
  one_day :: bool
  jersey_colour :: "string option"
  profile :: "string option"
  ttt :: "bool option"
  itt :: "bool option"
  tt :: "bool option"
  mtf :: "bool option"
  mountain :: "bool option"
  hilly :: "bool option"
  flat :: "bool option"
  cobbled :: "bool option"

fun first_colour :: "string list \<Rightarrow> string \<Rightarrow> string option" where
  "first_colour [] ic = None"
| "first_colour (col # cols) ic =
     (if str_contains (col @ ''.'') ic then Some (capitalize col) else first_colour cols ic)"

definition jersey_colour_of :: "'f utilities \<Rightarrow> string option \<Rightarrow> string option" where
  "jersey_colour_of U ic =
     (case ic of None \<Rightarrow> None
      | Some i \<Rightarrow> if i \<noteq> [] then first_colour (colour_icons U) i else None)"

text \<open>\<open>not v\<close> for a value that is None or a string.\<close>

definition not_str :: "string option \<Rightarrow> bool" where
  "not_str v = (v = None \<or> v = Some [])"

definition profile_of :: "'f utilities \<Rightarrow> string option \<Rightarrow> string option \<Rightarrow> string option" where
  "profile_of U ic jersey =
     (if not_str jersey then (case ic of None \<Rightarrow> None | Some i \<Rightarrow> profile_icon_map U i)
      else None)"

text \<open>\<open>f(profile) if profile else None\<close>.\<close>

definition profile_flag :: "(string \<Rightarrow> bool) \<Rightarrow> string option \<Rightarrow> bool option" where
  "profile_flag f p = (if not_str p then None else map_option f p)"

text \<open>Python's \<open>a or b\<close> on flags: \<open>a\<close> when \<open>a\<close> is true, else \<open>b\<close>.\<close>

definition py_or :: "bool option \<Rightarrow> bool option \<Rightarrow> bool option" where
  "py_or a b = (if a = Some True then a else b)"

definition results_series :: "'f utilities \<Rightarrow> 'f rider_result \<Rightarrow> series" where
  "results_series U r =
     (let jc = jersey_colour_of U (icon r);
          pr = profile_of U (icon r) jc;
          t3 = Some (pr = Some ''TTT'');
          it = profile_flag (str_contains ''ITT'') pr
      in \<lparr>uci_race = cat r \<in> set (uci_categories U),
          championship = cat r \<in> set (championships_categories U),
          u23 = cat r \<in> set (U23_categories U),
          cx = startswith (name r) ''CX -'',
          juniors = startswith (cat r) ''J'',
          one_day = cat r \<in> set (one_day_categories U),
          jersey_colour = jc,
          profile = pr,
          ttt = t3,
          itt = it,
          tt = py_or it t3,
          mtf = profile_flag (\<lambda>p. endswith p '' MTF'') pr,
          mountain = profile_flag (str_contains ''Mountain'') pr,
          hilly = profile_flag (str_contains ''Hilly'') pr,
          flat = profile_flag (str_contains ''Flat'') pr,
          cobbled = profile_flag (str_contains ''Cobbles'') pr\<rparr>)"

section \<open>A concrete instance for evaluation\<close>

text \<open>
  Modelled from the spec: one instance of the parameters, to run the model on sample
  pages. A country code is the stem of the file name of an image and an absent image
  gives an absent code, a profile is looked up from the file name of an image, an
  identifier is read from the query of a link (\<open>r=\<close> the race or the rider, \<open>e=\<close> the
  stage). \<open>sample_parse\<close> stands for \<open>dateutil\<close> on text of the form yyyy-mm-dd
  only, and raises ParserError when the month or the day is out of range, as
  \<open>dateutil\<close> does; \<open>sample_float\<close> stands for \<open>float\<close> on text of digits only.
  The theorems about the code hold for every instance; this one only serves the
  examples.
\<close>

definition days_in_month :: "int \<Rightarrow> int \<Rightarrow> int" where
  "days_in_month y m =
     (if m = 2 then (if y mod 4 = 0 \<and> (y mod 100 \<noteq> 0 \<or> y mod 400 = 0) then 29 else 28)
      else if m = 4 \<or> m = 6 \<or> m = 9 \<or> m = 11 then 30 else 31)"

definition sample_parse :: "string \<Rightarrow> error + date" where
  "sample_parse s =
     (case split_on ''-'' s of
        [y, m, d] \<Rightarrow>
          if isdecimal y \<and> isdecimal m \<and> isdecimal d \<and> length y = 4 \<and> length m = 2 \<and> length d = 2
             \<and> 1 \<le> digits_val y \<and> 1 \<le> digits_val m \<and> digits_val m \<le> 12 \<and> 1 \<le> digits_val d
             \<and> digits_val d \<le> days_in_month (digits_val y) (digits_val m)
          then Inr \<lparr>year = digits_val y, month = digits_val m, day = digits_val d\<rparr>
          else Inl ParserError
      | _ \<Rightarrow> Inl ParserError)"

definition sample_float :: "string \<Rightarrow> error + real" where
  "sample_float s = (if isdecimal s then Inr (of_int (digits_val s)) else Inl ValueError)"

definition query_int :: "string \<Rightarrow> string \<Rightarrow> error + int" where
  "query_int k h =
     bind_err (nth_err (split_on k h) 1) (\<lambda>rest.
     bind_err (nth_err (split_on ''&'' rest) 0) py_int)"

definition sample_race_id :: "tag \<Rightarrow> error + int" where
  "sample_race_id a = bind_err (tag_get a ''href'') (query_int ''r='')"

definition sample_stage_num :: "tag \<Rightarrow> error + int option" where
  "sample_stage_num a =
     bind_err (tag_get a ''href'') (\<lambda>h.
       if str_contains ''e='' h then bind_err (query_int ''e='' h) (\<lambda>n. Inr (Some n))
       else Inr None)"

definition sample_rider_id :: "tag option \<Rightarrow> error + int" where
  "sample_rider_id a =
     (case a of None \<Rightarrow> Inl TypeError
      | Some t \<Rightarrow> bind_err (tag_get t ''href'') (query_int ''r=''))"

definition file_name :: "tag \<Rightarrow> error + string" where
  "file_name i = bind_err (tag_get i ''src'') (\<lambda>s. last_err (split_on ''/'' s))"

definition sample_country_code :: "tag option \<Rightarrow> error + string option" where
  "sample_country_code i =
     (case i of None \<Rightarrow> Inr None
      | Some t \<Rightarrow>
          bind_err (file_name t) (\<lambda>f.
          bind_err (nth_err (split_on ''.'' f) 0) (\<lambda>stem. Inr (Some stem))))"

definition sample_profile_icon_map :: "string \<rightharpoonup> string" where
  "sample_profile_icon_map =
     map_of [(''Flatt.png'', ''Flat''), (''Smaakupert.png'', ''Hilly''),
             (''Smaakupert-MF.png'', ''Hilly MTF''), (''Fjell.png'', ''Mountain''),
             (''Fjell-MF.png'', ''Mountain MTF''), (''Tempo.png'', ''ITT''),
             (''Bakketempo.png'', ''Mountain ITT''), (''Lagtempo.png'', ''TTT''),
             (''Brosten.png'', ''Cobbles'')]"

definition sample_profile :: "tag option \<Rightarrow> error + string option" where
  "sample_profile i =
     (case i of None \<Rightarrow> Inr None
      | Some t \<Rightarrow> bind_err (file_name t) (\<lambda>f. Inr (sample_profile_icon_map f)))"

definition sample_utilities :: "real utilities" where
  "sample_utilities =
     \<lparr>parse = sample_parse, py_float = sample_float,
      race_link_to_race_id = sample_race_id, race_link_to_stage_num = sample_stage_num,
      img_to_country_code = sample_country_code, img_to_profile = sample_profile,
      rider_link_to_id = sample_rider_id,
      uci_categories = [''1.UWT'', ''2.UWT'', ''1.1'', ''2.1''],
      championships_categories = [''WC'', ''NC'', ''CC'', ''OL''],
      U23_categories = [''1.2U'', ''2.2U''],
      one_day_categories = [''1.UWT'', ''1.1'', ''1.2U'', ''WC'', ''NC''],
      colour_icons = [''green'', ''red'', ''yellow'', ''pink'', ''blue'', ''white'', ''polka''],
      profile_icon_map = sample_profile_icon_map\<rparr>"

text \<open>Sample cells and rows.\<close>

definition td :: "string \<Rightarrow> cell" where
  "td t = \<lparr>cell_text = t, cell_links = [], cell_imgs = []\<rparr>"

definition img :: "string \<Rightarrow> tag" where
  "img s = [(''src'', s)]"

definition link :: "string \<Rightarrow> tag" where
  "link h = [(''href'', h)]"

text \<open>
  A row of a given date, icon, race cell and list of cells after the category: finished
  3rd, 5th overall, category 2.UWT.
\<close>

definition sample_row :: "string \<Rightarrow> tag list \<Rightarrow> cell \<Rightarrow> cell list \<Rightarrow> cell list" where
  "sample_row d ic race_td rest =
     [td d, td [], td ''3'', td ''5'', \<lparr>cell_text = [], cell_links = [], cell_imgs = ic\<rparr>,
      race_td, td ''2.UWT''] @ rest"

definition championship_td :: cell where
  "championship_td =
     \<lparr>cell_text = '' World Championships ITT | Imola '',
      cell_links = [link ''race.php?r=9&y=2020'', link ''race.php?r=9&y=2020&e=1''],
      cell_imgs = [img ''flag/UCI.png'', img ''flag/ITA.png'']\<rparr>"

definition championship_row :: "cell list" where
  "championship_row = sample_row ''2020-09-25'' [img ''img/Tempo.png''] championship_td [td ''-'']"

definition championship_record :: "real rider_result" where
  "championship_record =
     \<lparr>date = \<lparr>year = 2020, month = 9, day = 25\<rparr>, result = Rank 3, gc_standing = Some 5,
      icon = Some ''Tempo.png'', cat = ''2.UWT'', uci_points = Some (IntV 0), race_id = 9,
      race_country_code = Some ''UCI'', full_name = ''World Championships ITT | Imola'',
      name = ''World Championships ITT'', edition_country_code = Some (Some ''ITA''),
      edition_city = Some ''Imola'', stage_num = None, classification = None\<rparr>"

text \<open>A stage of a stage race: one image, two links, the second one of the stage.\<close>

definition stage_td :: cell where
  "stage_td =
     \<lparr>cell_text = ''Tour de France | 5th stage'',
      cell_links = [link ''race.php?r=17&y=2021'', link ''race.php?r=17&y=2021&e=5''],
      cell_imgs = [img ''flag/FRA.png'']\<rparr>"

definition stage_row :: "cell list" where
  "stage_row = sample_row ''2021-07-01'' [img ''img/Flatt.png''] stage_td [td ''40'']"

definition stage_record :: "real rider_result" where
  "stage_record =
     \<lparr>date = \<lparr>year = 2021, month = 7, day = 1\<rparr>, result = Rank 3, gc_standing = Some 5,
      icon = Some ''Flatt.png'', cat = ''2.UWT'', uci_points = Some (FloatV 40), race_id = 17,
      race_country_code = Some ''FRA'', full_name = ''Tour de France | 5th stage'',
      name = ''Tour de France'', edition_country_code = None, edition_city = None,
      stage_num = Some None, classification = None\<rparr>"

text \<open>A row of the layout before 2018 (7 cells) and the same row with a dash for the points.\<close>

definition plain_td :: cell where
  "plain_td =
     \<lparr>cell_text = ''Paris - Roubaix'', cell_links = [link ''race.php?r=8&y=2015''],
      cell_imgs = [img ''flag/FRA.png'']\<rparr>"

definition plain_record :: "real number option \<Rightarrow> real rider_result" where
  "plain_record pts =
     \<lparr>date = \<lparr>year = 2015, month = 4, day = 12\<rparr>, result = Rank 3, gc_standing = Some 5,
      icon = Some ''Brosten.png'', cat = ''2.UWT'', uci_points = pts, race_id = 8,
      race_country_code = Some ''FRA'', full_name = ''Paris - Roubaix'',
      name = ''Paris - Roubaix'', edition_country_code = None, edition_city = None,
      stage_num = None, classification = None\<rparr>"

definition plain_row :: "cell list \<Rightarrow> cell list" where
  "plain_row rest = sample_row ''2015-04-12'' [img ''img/Brosten.png''] plain_td rest"

text \<open>
  A race name with a tab, a line feed and a carriage return inside, a no-break space
  in front of it and another one in front of its second token.
\<close>

definition tab_td :: cell where
  "tab_td =
     \<lparr>cell_text = [CHR 0xA0, CHR 0x0A, CHR 0x09] @ ''Tour'' @ [CHR 0x09] @ ''de'' @ [CHR 0x0A]
                   @ ''France'' @ [CHR 0x0D] @ ''|'' @ [CHR 0x0D, CHR 0x0A, CHR 0xA0] @ ''Youth''
                   @ [CHR 0x0A],
      cell_links = [link ''race.php?r=17&y=2021''],
      cell_imgs = [img ''flag/FRA.png'']\<rparr>"

definition tab_row :: "cell list" where
  "tab_row = sample_row ''2021-07-18'' [img ''img/white.png''] tab_td [td ''-'']"

text \<open>
  Following the words of the specification: every line feed, tab and carriage return
  becomes one space.
\<close>

definition spec_collapse :: "string \<Rightarrow> string" where
  "spec_collapse t =
     map (\<lambda>c. if c = CHR 0x0A \<or> c = CHR 0x09 \<or> c = CHR 0x0D then CHR '' '' else c) t"

text \<open>A race-name cell without any image.\<close>

definition no_image_td :: cell where
  "no_image_td =
     \<lparr>cell_text = ''Paris - Roubaix'', cell_links = [link ''race.php?r=8&y=2015''],
      cell_imgs = []\<rparr>"

definition no_image_row :: "cell list" where
  "no_image_row = sample_row ''2015-04-12'' [img ''img/Brosten.png''] no_image_td []"

text \<open>A built record with a given icon, for the derived columns.\<close>

definition icon_record :: "string option \<Rightarrow> real rider_result" where
  "icon_record ic = (plain_record None)\<lparr>icon := ic\<rparr>"

text \<open>Side tables: a row of text only, a row with one image.\<close>

definition info_text :: "string \<Rightarrow> info_row" where
  "info_text v = \<lparr>info_value = v, row_imgs = [], row_a = None\<rparr>"

definition info_flag :: "string \<Rightarrow> string \<Rightarrow> info_row" where
  "info_flag v s =
     \<lparr>info_value = v, row_imgs = [\<lparr>img_tag = img s, next_sibling = TextSibling ('' '' @ v)\<rparr>],
      row_a = None\<rparr>"

definition prologue_table :: info_table where
  "prologue_table =
     [(''Nation'', info_flag ''France'' ''flag/FRA.png''), (''Where'', info_text ''Brest''),
      (''What'', info_text ''Prologue'')]"

definition stage_table :: "string \<Rightarrow> info_table" where
  "stage_table what =
     [(''Nation'', info_flag ''France'' ''flag/FRA.png''), (''Where'', info_text ''Brest -> Landerneau''),
      (''What'', info_text what)]"

definition no_nation_table :: info_table where
  "no_nation_table = [(''CAT'', info_text ''2.UWT''), (''What'', info_text ''Stage 5'')]"

definition tab_record :: "real rider_result" where
  "tab_record =
     \<lparr>date = \<lparr>year = 2021, month = 7, day = 18\<rparr>, result = Rank 3, gc_standing = Some 5,
      icon = Some ''white.png'', cat = ''2.UWT'', uci_points = Some (IntV 0), race_id = 17,
      race_country_code = Some ''FRA'', full_name = ''Tourde France| '' @ [CHR 0xA0] @ ''Youth'',
      name = ''Tourde France'', edition_country_code = None, edition_city = None,
      stage_num = None, classification = Some ''Youth''\<rparr>"

section \<open>Basic facts\<close>

lemma bind_err_Inl [simp]: "bind_err (Inl e) f = Inl e"
  by (simp add: bind_err_def)

lemma bind_err_Inr [simp]: "bind_err (Inr x) f = f x"
  by (simp add: bind_err_def)

lemma bind_err_eq_Inr: "bind_err m f = Inr y \<longleftrightarrow> (\<exists>x. m = Inr x \<and> f x = Inr y)"
  by (cases m) simp_all

lemma nth_err_eq_Inr: "nth_err xs i = Inr x \<longleftrightarrow> i < length xs \<and> xs ! i = x"
  by (simp add: nth_err_def)

section \<open>What a built record tells about its row\<close>

text \<open>
  When the builder returns a record, the row had 7 or 8 cells, every decoder before the
  race name succeeded, and the record is the result of the cascade of lines 200 to 207
  on a record whose four optional attributes are unset.
\<close>

lemma RiderResult_init_built:
  assumes "RiderResult_init U tds = Inr (Some r)"
  shows "\<exists>d res gc ic pts rid cc nm.
           7 \<le> length tds \<and> length tds \<le> 8
         \<and> uci_points_of U (if length tds = 7 then None else Some (tds ! 7)) = Inr pts
         \<and> cell_links (tds ! 5) \<noteq> [] \<and> cell_imgs (tds ! 5) \<noteq> []
         \<and> classify_name U (cell_imgs (tds ! 5)) (cell_links (tds ! 5))
              (tokens_of (full_name_of (cell_text (tds ! 5))))
              \<lparr>date = d, result = res, gc_standing = gc, icon = ic,
               cat = cell_text (tds ! 6), uci_points = pts, race_id = rid,
               race_country_code = cc, full_name = full_name_of (cell_text (tds ! 5)), name = nm,
               edition_country_code = None, edition_city = None,
               stage_num = None, classification = None\<rparr> = Inr r
         \<and> nth_err (tokens_of (full_name_of (cell_text (tds ! 5)))) 0 = Inr nm"
  using assms
  unfolding RiderResult_init_def Let_def
  apply (auto simp: bind_err_eq_Inr nth_err_eq_Inr split: if_splits)
   apply (rule exI, rule exI, rule exI, rule exI, rule exI, rule exI, assumption)+
  done

lemma classify_name_championship:
  assumes "classify_name U imgs links tokens r = Inr r'" and "length imgs = 2"
  shows "\<exists>cc. img_to_country_code U (Some (imgs ! 1)) = Inr cc
             \<and> 1 < length tokens
             \<and> r' = r\<lparr>edition_country_code := Some cc, edition_city := Some (tokens ! 1)\<rparr>"
  using assms unfolding classify_name_def
  by (auto simp: bind_err_eq_Inr nth_err_eq_Inr)

section \<open>The cascade on the race name\<close>

text \<open>The four outcomes of lines 200 to 207, and what they leave as it was.\<close>

lemma classify_name_keeps:
  assumes "classify_name U imgs links tokens r = Inr r'"
  shows "uci_points r' = uci_points r \<and> full_name r' = full_name r \<and> name r' = name r
       \<and> race_country_code r' = race_country_code r \<and> icon r' = icon r \<and> cat r' = cat r"
  using assms unfolding classify_name_def
  by (auto simp: bind_err_eq_Inr split: if_splits)

lemma classify_name_stage:
  assumes "classify_name U imgs links tokens r = Inr r'"
    and "length imgs \<noteq> 2" and "length links = 2"
  shows "\<exists>n. race_link_to_stage_num U (links ! 0) = Inr n \<and> r' = r\<lparr>stage_num := Some n\<rparr>"
  using assms unfolding classify_name_def
  by (auto simp: bind_err_eq_Inr nth_err_eq_Inr)

lemma classify_name_classification:
  assumes "classify_name U imgs links tokens r = Inr r'"
    and "length imgs \<noteq> 2" and "length links \<noteq> 2" and "length tokens = 2"
  shows "r' = r\<lparr>classification := Some (tokens ! 1)\<rparr>"
  using assms unfolding classify_name_def
  by (auto simp: bind_err_eq_Inr nth_err_eq_Inr)

lemma classify_name_plain:
  assumes "classify_name U imgs links tokens r = Inr r'"
    and "length imgs \<noteq> 2" and "length links \<noteq> 2" and "length tokens \<noteq> 2"
  shows "r' = r"
  using assms unfolding classify_name_def
  by simp

lemma classify_name_tokens:
  assumes "classify_name U imgs links tokens r = Inr r'"
    and "edition_city r = None" and "classification r = None"
  shows "(\<forall>c. edition_city r' = Some c \<longrightarrow> 1 < length tokens \<and> c = tokens ! 1)
       \<and> (\<forall>c. classification r' = Some c \<longrightarrow> 1 < length tokens \<and> c = tokens ! 1)"
  using assms unfolding classify_name_def
  by (auto simp: bind_err_eq_Inr nth_err_eq_Inr split: if_splits)

lemma length_tokens_of: "length (tokens_of fn) = length (split_on ''|'' fn)"
  by (simp add: tokens_of_def)

lemma nth_tokens_of: "i < length (split_on ''|'' fn) \<Longrightarrow> tokens_of fn ! i = strip (split_on ''|'' fn ! i)"
  by (simp add: tokens_of_def)

text \<open>
  C2. The cascade on the race-name cell of a built record, in its order. With exactly
  2 images the record is a championship edition: \<open>edition_country_code\<close> is set to
  the code of the second image, \<open>edition_city\<close> is set to the second token of the
  name, and neither \<open>stage_num\<close> nor \<open>classification\<close> is set, whatever the number
  of links and of tokens. Otherwise, with 2 links it is a stage: \<open>stage_num\<close> is set
  and \<open>classification\<close> is not, even if the name has a second token. Otherwise, with
  2 tokens it is a classification, named by the second token. Otherwise none of the
  four attributes is set.
\<close>

theorem race_name_cascade:
  assumes "RiderResult_init U tds = Inr (Some r)"
  shows "(length (cell_imgs (tds ! 5)) = 2 \<longrightarrow>
            (\<exists>cc. img_to_country_code U (Some (cell_imgs (tds ! 5) ! 1)) = Inr cc
                 \<and> edition_country_code r = Some cc)
          \<and> 1 < length (split_on ''|'' (full_name r))
          \<and> edition_city r = Some (strip (split_on ''|'' (full_name r) ! 1))
          \<and> stage_num r = None \<and> classification r = None)
       \<and> (length (cell_imgs (tds ! 5)) \<noteq> 2 \<and> length (cell_links (tds ! 5)) = 2 \<longrightarrow>
            edition_country_code r = None \<and> edition_city r = None
          \<and> stage_num r \<noteq> None \<and> classification r = None)
       \<and> (length (cell_imgs (tds ! 5)) \<noteq> 2 \<and> length (cell_links (tds ! 5)) \<noteq> 2
            \<and> length (split_on ''|'' (full_name r)) = 2 \<longrightarrow>
            edition_country_code r = None \<and> edition_city r = None \<and> stage_num r = None
          \<and> classification r = Some (strip (split_on ''|'' (full_name r) ! 1)))
       \<and> (length (cell_imgs (tds ! 5)) \<noteq> 2 \<and> length (cell_links (tds ! 5)) \<noteq> 2
            \<and> length (split_on ''|'' (full_name r)) \<noteq> 2 \<longrightarrow>
            edition_country_code r = None \<and> edition_city r = None \<and> stage_num r = None
          \<and> classification r = None)"
proof -
  let ?imgs = "cell_imgs (tds ! 5)" and ?links = "cell_links (tds ! 5)"
  let ?fn = "full_name_of (cell_text (tds ! 5))"
  from RiderResult_init_built [OF assms] obtain r0 where
    c: "classify_name U ?imgs ?links (tokens_of ?fn) r0 = Inr r"
    and fn0: "full_name r0 = ?fn"
    and r0: "edition_country_code r0 = None" "edition_city r0 = None"
      "stage_num r0 = None" "classification r0 = None"
    by fastforce
  from classify_name_keeps [OF c] fn0 have fn: "full_name r = ?fn"
    by simp
  have champion: "(\<exists>cc. img_to_country_code U (Some (?imgs ! 1)) = Inr cc
                 \<and> edition_country_code r = Some cc)
          \<and> 1 < length (split_on ''|'' (full_name r))
          \<and> edition_city r = Some (strip (split_on ''|'' (full_name r) ! 1))
          \<and> stage_num r = None \<and> classification r = None"
    if "length ?imgs = 2"
    using classify_name_championship [OF c that] r0 fn
    by (auto simp: length_tokens_of nth_tokens_of)
  have stage: "edition_country_code r = None \<and> edition_city r = None
          \<and> stage_num r \<noteq> None \<and> classification r = None"
    if "length ?imgs \<noteq> 2" "length ?links = 2"
    using classify_name_stage [OF c that] r0 by auto
  have named: "edition_country_code r = None \<and> edition_city r = None \<and> stage_num r = None
          \<and> classification r = Some (strip (split_on ''|'' (full_name r) ! 1))"
    if "length ?imgs \<noteq> 2" "length ?links \<noteq> 2" "length (split_on ''|'' (full_name r)) = 2"
  proof -
    from that(3) fn have "length (tokens_of ?fn) = 2"
      by (simp add: length_tokens_of)
    from classify_name_classification [OF c that(1) that(2) this] r0 fn that(3)
    show ?thesis by (simp add: nth_tokens_of)
  qed
  have plain: "edition_country_code r = None \<and> edition_city r = None \<and> stage_num r = None
          \<and> classification r = None"
    if "length ?imgs \<noteq> 2" "length ?links \<noteq> 2" "length (split_on ''|'' (full_name r)) \<noteq> 2"
  proof -
    from that(3) fn have "length (tokens_of ?fn) \<noteq> 2"
      by (simp add: length_tokens_of)
    from classify_name_plain [OF c that(1) that(2) this] r0
    show ?thesis by simp
  qed
  from champion stage named plain show ?thesis
    by blast
qed

text \<open>
  The championship row has 2 images, 2 links and 2 tokens; the stage row has 1 image,
  2 links and 2 tokens; the row of the youth classification has 1 image, 1 link and
  2 tokens; the plain row has 1 image, 1 link and 1 token.
\<close>

theorem race_name_cascade_witness:
  "RiderResult_init sample_utilities championship_row = Inr (Some championship_record)
   \<and> length (cell_imgs (championship_row ! 5)) = 2
   \<and> length (cell_links (championship_row ! 5)) = 2
   \<and> length (split_on ''|'' (full_name championship_record)) = 2
   \<and> edition_country_code championship_record = Some (Some ''ITA'')
   \<and> edition_city championship_record = Some ''Imola''
   \<and> stage_num championship_record = None \<and> classification championship_record = None
   \<and> RiderResult_init sample_utilities stage_row = Inr (Some stage_record)
   \<and> length (cell_imgs (stage_row ! 5)) \<noteq> 2
   \<and> length (cell_links (stage_row ! 5)) = 2
   \<and> length (split_on ''|'' (full_name stage_record)) = 2
   \<and> stage_num stage_record \<noteq> None \<and> classification stage_record = None
   \<and> RiderResult_init sample_utilities tab_row = Inr (Some tab_record)
   \<and> length (cell_imgs (tab_row ! 5)) \<noteq> 2
   \<and> length (cell_links (tab_row ! 5)) \<noteq> 2
   \<and> length (split_on ''|'' (full_name tab_record)) = 2
   \<and> stage_num tab_record = None \<and> classification tab_record = Some ''Youth''
   \<and> RiderResult_init sample_utilities (plain_row []) = Inr (Some (plain_record None))
   \<and> length (split_on ''|'' (full_name (plain_record None))) \<noteq> 2
   \<and> classification (plain_record None) = None"
proof -
  have built: "RiderResult_init sample_utilities championship_row = Inr (Some championship_record)"
    "RiderResult_init sample_utilities stage_row = Inr (Some stage_record)"
    "RiderResult_init sample_utilities tab_row = Inr (Some tab_record)"
    "RiderResult_init sample_utilities (plain_row []) = Inr (Some (plain_record None))"
    by code_simp+
  have champion: "length (cell_imgs (championship_row ! 5)) = 2"
    "length (cell_links (championship_row ! 5)) = 2"
    "length (split_on ''|'' (full_name championship_record)) = 2"
    by code_simp+
  have stage: "length (cell_imgs (stage_row ! 5)) \<noteq> 2"
    "length (cell_links (stage_row ! 5)) = 2"
    "length (split_on ''|'' (full_name stage_record)) = 2"
    by code_simp+
  have named: "length (cell_imgs (tab_row ! 5)) \<noteq> 2"
    "length (cell_links (tab_row ! 5)) \<noteq> 2"
    "length (split_on ''|'' (full_name tab_record)) = 2"
    by code_simp+
  have plain: "length (split_on ''|'' (full_name (plain_record None))) \<noteq> 2"
    by code_simp
  have fields: "edition_country_code championship_record = Some (Some ''ITA'')"
    "edition_city championship_record = Some ''Imola''"
    "classification tab_record = Some ''Youth''"
    "classification (plain_record None) = None"
    by (simp_all add: championship_record_def tab_record_def plain_record_def)
  from race_name_cascade [OF built(1)] champion(1)
  have a: "stage_num championship_record = None \<and> classification championship_record = None"
    by blast
  from race_name_cascade [OF built(2)] stage(1) stage(2)
  have b: "stage_num stage_record \<noteq> None \<and> classification stage_record = None"
    by blast
  from race_name_cascade [OF built(3)] named
  have c: "stage_num tab_record = None"
    by blast
  from built champion stage named plain fields a b c show ?thesis
    by blast
qed

text \<open>
  C5. The claim reads the stage number from the second link of the race-name cell, the
  link whose presence line 204 tests. Line 205 passes \<open>links[0]\<close>: the stage number
  of a record built from a row with two links, and not two images, is what the helper
  returns on the first link, the one the race identifier was read from already.
\<close>

theorem stage_num_from_first_link:
  assumes "RiderResult_init U tds = Inr (Some r)"
    and "length (cell_imgs (tds ! 5)) \<noteq> 2"
    and "length (cell_links (tds ! 5)) = 2"
  shows "\<exists>n. race_link_to_stage_num U (cell_links (tds ! 5) ! 0) = Inr n \<and> stage_num r = Some n"
proof -
  from RiderResult_init_built [OF assms(1)] obtain r0 where
    c: "classify_name U (cell_imgs (tds ! 5)) (cell_links (tds ! 5))
          (tokens_of (full_name_of (cell_text (tds ! 5)))) r0 = Inr r"
    by fastforce
  from classify_name_stage [OF c assms(2) assms(3)] show ?thesis
    by auto
qed

text \<open>
  On the sample stage row the second link carries stage 5 and the first carries none:
  the record holds no stage number.
\<close>

theorem stage_num_from_first_link_witness:
  "RiderResult_init sample_utilities stage_row = Inr (Some stage_record)
   \<and> length (cell_imgs (stage_row ! 5)) \<noteq> 2
   \<and> length (cell_links (stage_row ! 5)) = 2
   \<and> race_link_to_stage_num sample_utilities (cell_links (stage_row ! 5) ! 0) = Inr None
   \<and> race_link_to_stage_num sample_utilities (cell_links (stage_row ! 5) ! 1) = Inr (Some 5)
   \<and> stage_num stage_record = Some None"
proof -
  have built: "RiderResult_init sample_utilities stage_row = Inr (Some stage_record)"
    by code_simp
  have imgs: "length (cell_imgs (stage_row ! 5)) \<noteq> 2"
    by code_simp
  have links: "length (cell_links (stage_row ! 5)) = 2"
    by code_simp
  have first: "race_link_to_stage_num sample_utilities (cell_links (stage_row ! 5) ! 0) = Inr None"
    by code_simp
  have second: "race_link_to_stage_num sample_utilities (cell_links (stage_row ! 5) ! 1) = Inr (Some 5)"
    by code_simp
  from stage_num_from_first_link [OF built imgs links] first
  have "stage_num stage_record = Some None" by simp
  with built imgs links first second show ?thesis by simp
qed

section \<open>The points column\<close>

text \<open>
  C8. A built record comes from a row of 7 or of 8 cells. With 7 cells it has no UCI
  points at all; with 8 cells it has some: the integer 0 when the text of the eighth
  cell is the dash, and otherwise the float that text converts to.
\<close>

theorem uci_points_by_layout:
  assumes "RiderResult_init U tds = Inr (Some r)"
  shows "(length tds = 7 \<or> length tds = 8)
       \<and> (length tds = 7 \<longrightarrow> uci_points r = None)
       \<and> (length tds = 8 \<and> cell_text (tds ! 7) = ''-'' \<longrightarrow> uci_points r = Some (IntV 0))
       \<and> (length tds = 8 \<and> cell_text (tds ! 7) \<noteq> ''-'' \<longrightarrow>
            (\<exists>f. py_float U (cell_text (tds ! 7)) = Inr f \<and> uci_points r = Some (FloatV f)))"
proof -
  from RiderResult_init_built [OF assms] obtain r0 pts where
    len: "7 \<le> length tds" "length tds \<le> 8"
    and pts: "uci_points_of U (if length tds = 7 then None else Some (tds ! 7)) = Inr pts"
    and c: "classify_name U (cell_imgs (tds ! 5)) (cell_links (tds ! 5))
          (tokens_of (full_name_of (cell_text (tds ! 5)))) r0 = Inr r"
    and r0: "uci_points r0 = pts"
    by fastforce
  from classify_name_keeps [OF c] r0 have "uci_points r = pts" by simp
  with pts len show ?thesis
    by (auto simp: uci_points_of_def bind_err_eq_Inr split: if_splits)
qed

text \<open>The same race on a row of 7 cells, with a dash, and with 120 points.\<close>

theorem uci_points_by_layout_witness:
  "RiderResult_init sample_utilities (plain_row []) = Inr (Some (plain_record None))
   \<and> length (plain_row []) = 7 \<and> uci_points (plain_record None) = None
   \<and> RiderResult_init sample_utilities (plain_row [td ''-''])
       = Inr (Some (plain_record (Some (IntV 0))))
   \<and> length (plain_row [td ''-'']) = 8
   \<and> RiderResult_init sample_utilities (plain_row [td ''120''])
       = Inr (Some (plain_record (Some (FloatV 120))))
   \<and> length (plain_row [td ''120'']) = 8"
proof -
  have old: "RiderResult_init sample_utilities (plain_row []) = Inr (Some (plain_record None))"
    by code_simp
  have dash: "RiderResult_init sample_utilities (plain_row [td ''-''])
       = Inr (Some (plain_record (Some (IntV 0))))"
    by code_simp
  have some: "RiderResult_init sample_utilities (plain_row [td ''120''])
       = Inr (Some (plain_record (Some (FloatV 120))))"
    by code_simp
  have lens: "length (plain_row []) = 7" "length (plain_row [td ''-'']) = 8"
    "length (plain_row [td ''120'']) = 8"
    by (simp_all add: plain_row_def sample_row_def)
  from uci_points_by_layout [OF old] lens have "uci_points (plain_record None) = None"
    by simp
  with old dash some lens show ?thesis by simp
qed

section \<open>A race-name cell without image\<close>

text \<open>
  C10. The claim has the builder return a record without country code when the
  race-name cell holds no image. Line 196 reads \<open>imgs[0]\<close> unguarded: on a row of at
  least 7 cells whose race-name cell has no image the builder raises, and no record is
  built. (The icon cell, line 188, is guarded by \<open>if icon.img\<close>.)
\<close>

theorem no_image_raises:
  assumes "7 \<le> length tds" and "cell_imgs (tds ! 5) = []"
  shows "\<exists>e. RiderResult_init U tds = Inl e"
  using assms unfolding RiderResult_init_def Let_def
  by (auto simp: bind_err_def nth_err_def split: sum.splits)

text \<open>On the sample row every earlier decoder succeeds and the exception is IndexError.\<close>

theorem no_image_raises_witness:
  "7 \<le> length no_image_row \<and> cell_imgs (no_image_row ! 5) = []
   \<and> (\<exists>e. RiderResult_init sample_utilities no_image_row = Inl e)
   \<and> RiderResult_init sample_utilities no_image_row = Inl IndexError"
proof -
  have len: "7 \<le> length no_image_row"
    by (simp add: no_image_row_def sample_row_def)
  have imgs: "cell_imgs (no_image_row ! 5) = []"
    by (simp add: no_image_row_def sample_row_def no_image_td_def)
  have raised: "RiderResult_init sample_utilities no_image_row = Inl IndexError"
    by code_simp
  from no_image_raises [OF len imgs, of sample_utilities] len imgs raised
  show ?thesis by simp
qed

section \<open>The name of the race\<close>

text \<open>Replacing a single character is a map, deleting it is a filter.\<close>

lemma replace_all_char: "replace_all [c] [d] s = map (\<lambda>x. if x = c then d else x) s"
  by (induction s) auto

lemma replace_all_delete: "replace_all [c] [] s = filter (\<lambda>x. x \<noteq> c) s"
  by (induction s) auto

lemma filter_controls_map:
  "filter (\<lambda>x. x \<noteq> CHR 0x0D) (filter (\<lambda>x. x \<noteq> CHR 0x09)
      (map (\<lambda>x. if x = CHR 0x0A then CHR '' '' else x) s)) =
   map (\<lambda>c. if c = CHR 0x0A then CHR '' '' else c)
     (filter (\<lambda>c. c \<noteq> CHR 0x09 \<and> c \<noteq> CHR 0x0D) s)"
  by (induction s) auto

lemma full_name_of_eq:
  "full_name_of t =
     map (\<lambda>c. if c = CHR 0x0A then CHR '' '' else c)
       (filter (\<lambda>c. c \<noteq> CHR 0x09 \<and> c \<noteq> CHR 0x0D) (strip t))"
  unfolding full_name_of_def replace_all_char replace_all_delete
  by (rule filter_controls_map)

lemma split_acc_not_Nil: "split_acc sep acc s \<noteq> []"
  by (induction sep acc s rule: split_acc.induct) auto

lemma tokens_of_not_Nil: "tokens_of fn \<noteq> []"
  by (simp add: tokens_of_def split_on_def split_acc_not_Nil)

lemma last_dropWhile: "dropWhile P xs \<noteq> [] \<Longrightarrow> last (dropWhile P xs) = last xs"
  by (induction xs) (auto split: if_splits)

lemma strip_ends:
  "strip t = [] \<or> (\<not> isspace (hd (strip t)) \<and> \<not> isspace (last (strip t)))"
proof (cases "strip t = []")
  case True
  then show ?thesis by simp
next
  case False
  define u where "u = dropWhile isspace t"
  define v where "v = dropWhile isspace (rev u)"
  have s: "strip t = rev v" by (simp add: strip_def u_def v_def)
  with False have v: "v \<noteq> []" by simp
  then have ru: "rev u \<noteq> []" by (auto simp: v_def)
  then have u: "u \<noteq> []" by simp
  have "\<not> isspace (hd v)" using v unfolding v_def by (rule hd_dropWhile)
  then have l: "\<not> isspace (last (strip t))" using v s by (simp add: last_rev)
  have "last v = last (rev u)" using v unfolding v_def by (rule last_dropWhile)
  also have "\<dots> = hd u" using u by (simp add: last_rev)
  finally have "hd (strip t) = hd u" using v s by (simp add: hd_rev)
  moreover have "\<not> isspace (hd u)" using u unfolding u_def by (rule hd_dropWhile)
  ultimately show ?thesis using l by simp
qed

lemma strip_fixed:
  assumes "s = [] \<or> (\<not> isspace (hd s) \<and> \<not> isspace (last s))"
  shows "strip s = s"
proof (cases s)
  case Nil
  then show ?thesis by (simp add: strip_def)
next
  case (Cons a as)
  with assms have h: "\<not> isspace (hd s)" and l: "\<not> isspace (last s)" by auto
  from h Cons have 1: "dropWhile isspace s = s" by simp
  from Cons have "s = butlast s @ [last s]" by simp
  then have "rev s = last s # rev (butlast s)" by (metis rev.simps(2) rev_rev_ident rev_swap)
  then obtain x xs where r: "rev s = x # xs" and x: "x = last s" by blast
  from l x have "dropWhile isspace (x # xs) = x # xs" by simp
  with r have 2: "dropWhile isspace (rev s) = rev s" by simp
  show ?thesis by (simp add: strip_def 1 2)
qed

lemma isspace_controls: "isspace (CHR 0x0A)" "isspace (CHR 0x09)" "isspace (CHR 0x0D)" "isspace (CHR '' '')"
  by (simp_all add: isspace_def)

lemma hd_filter_keep: "xs \<noteq> [] \<Longrightarrow> P (hd xs) \<Longrightarrow> hd (filter P xs) = hd xs"
  by (cases xs) auto

lemma last_filter_keep: "xs \<noteq> [] \<Longrightarrow> P (last xs) \<Longrightarrow> last (filter P xs) = last xs"
proof (induction xs)
  case Nil
  then show ?case by simp
next
  case (Cons a xs)
  show ?case
  proof (cases "xs = []")
    case True
    with Cons.prems show ?thesis by simp
  next
    case False
    with Cons.prems have "P (last xs)" by simp
    moreover from False have "last xs \<in> set xs" by simp
    ultimately have "filter P xs \<noteq> []" by (auto simp: filter_empty_conv)
    with Cons False \<open>P (last xs)\<close> show ?thesis by simp
  qed
qed

lemma strip_full_name_of: "strip (full_name_of t) = full_name_of t"
proof (cases "strip t = []")
  case True
  then have "full_name_of t = []" by (simp add: full_name_of_eq)
  then show ?thesis by (simp add: strip_def)
next
  case False
  let ?P = "\<lambda>c. c \<noteq> CHR 0x09 \<and> c \<noteq> CHR 0x0D"
  let ?f = "\<lambda>c. if c = CHR 0x0A then CHR '' '' else c"
  from strip_ends [of t] False
  have h: "\<not> isspace (hd (strip t))" and l: "\<not> isspace (last (strip t))" by auto
  from h isspace_controls have Ph: "?P (hd (strip t))" and nh: "hd (strip t) \<noteq> CHR 0x0A" by auto
  from l isspace_controls have Pl: "?P (last (strip t))" and nl: "last (strip t) \<noteq> CHR 0x0A" by auto
  have ne: "filter ?P (strip t) \<noteq> []"
    using False Ph by (cases "strip t") auto
  have "hd (full_name_of t) = hd (strip t)"
    using ne hd_filter_keep [of "strip t" ?P, OF False Ph] nh
    by (simp add: full_name_of_eq hd_map)
  moreover have "last (full_name_of t) = last (strip t)"
    using ne last_filter_keep [of "strip t" ?P, OF False Pl] nl
    by (simp add: full_name_of_eq last_map)
  ultimately show ?thesis using h l by (intro strip_fixed) simp
qed

text \<open>
  C6, as amended. The claim turns each line feed, tab and carriage return into a
  space; lines 197 and 198 turn a line feed into a space and delete tabs and carriage
  returns. For every built record, \<open>full_name\<close> is the text of the race-name cell,
  stripped first, with each line feed replaced by one space and each tab and carriage
  return removed; it has no white space around it; and every token of it on \<open>|\<close>
  that the record keeps is stripped: \<open>name\<close> is the first token stripped, and
  \<open>edition_city\<close> and \<open>classification\<close>, when set, are the second token stripped.
\<close>

theorem full_name_normalised:
  assumes "RiderResult_init U tds = Inr (Some r)"
  shows "full_name r =
           map (\<lambda>c. if c = CHR 0x0A then CHR '' '' else c)
             (filter (\<lambda>c. c \<noteq> CHR 0x09 \<and> c \<noteq> CHR 0x0D) (strip (cell_text (tds ! 5))))
       \<and> strip (full_name r) = full_name r
       \<and> name r = strip (hd (split_on ''|'' (full_name r)))
       \<and> (\<forall>c. edition_city r = Some c \<longrightarrow>
             1 < length (split_on ''|'' (full_name r))
             \<and> c = strip (split_on ''|'' (full_name r) ! 1))
       \<and> (\<forall>c. classification r = Some c \<longrightarrow>
             1 < length (split_on ''|'' (full_name r))
             \<and> c = strip (split_on ''|'' (full_name r) ! 1))"
proof -
  from RiderResult_init_built [OF assms] obtain r0 where
    c: "classify_name U (cell_imgs (tds ! 5)) (cell_links (tds ! 5))
          (tokens_of (full_name_of (cell_text (tds ! 5)))) r0 = Inr r"
    and fn: "full_name r0 = full_name_of (cell_text (tds ! 5))"
    and nm: "nth_err (tokens_of (full_name_of (cell_text (tds ! 5)))) 0 = Inr (name r0)"
    and r0: "edition_city r0 = None" "classification r0 = None"
    by fastforce
  from classify_name_keeps [OF c] fn
  have 1: "full_name r = full_name_of (cell_text (tds ! 5))" and 2: "name r = name r0"
    by simp_all
  have ne: "split_on ''|'' (full_name r) \<noteq> []"
    by (simp add: split_on_def split_acc_not_Nil)
  then have "map strip (split_on ''|'' (full_name r)) ! 0 = strip (hd (split_on ''|'' (full_name r)))"
    by (simp add: hd_conv_nth)
  with nm 1 2 have first: "name r = strip (hd (split_on ''|'' (full_name r)))"
    by (simp add: nth_err_eq_Inr tokens_of_def)
  from classify_name_tokens [OF c r0] 1
  have second: "(\<forall>c. edition_city r = Some c \<longrightarrow>
             1 < length (split_on ''|'' (full_name r))
             \<and> c = strip (split_on ''|'' (full_name r) ! 1))
       \<and> (\<forall>c. classification r = Some c \<longrightarrow>
             1 < length (split_on ''|'' (full_name r))
             \<and> c = strip (split_on ''|'' (full_name r) ! 1))"
    by (auto simp: length_tokens_of nth_tokens_of)
  from 1 have "full_name r =
           map (\<lambda>c. if c = CHR 0x0A then CHR '' '' else c)
             (filter (\<lambda>c. c \<noteq> CHR 0x09 \<and> c \<noteq> CHR 0x0D) (strip (cell_text (tds ! 5))))"
    by (simp add: full_name_of_eq)
  moreover from 1 have "strip (full_name r) = full_name r"
    by (simp add: strip_full_name_of)
  ultimately show ?thesis using first second
    by blast
qed

text \<open>
  On the sample row the no-break space in front of the cell text and the one in front
  of the second token are stripped, the line feeds are spaces, the tab and the carriage
  returns are gone.
\<close>

theorem full_name_normalised_witness:
  "RiderResult_init sample_utilities tab_row = Inr (Some tab_record)
   \<and> full_name tab_record = ''Tourde France| '' @ [CHR 0xA0] @ ''Youth''
   \<and> strip (full_name tab_record) = full_name tab_record
   \<and> name tab_record = ''Tourde France''
   \<and> classification tab_record = Some ''Youth''
   \<and> strip (split_on ''|'' (full_name tab_record) ! 1) = ''Youth''
   \<and> split_on ''|'' (full_name tab_record) ! 1 \<noteq> ''Youth''"
proof -
  have built: "RiderResult_init sample_utilities tab_row = Inr (Some tab_record)"
    by code_simp
  have fields: "full_name tab_record = ''Tourde France| '' @ [CHR 0xA0] @ ''Youth''"
    "name tab_record = ''Tourde France''"
    "classification tab_record = Some ''Youth''"
    by (simp_all add: tab_record_def)
  have raw: "split_on ''|'' (full_name tab_record) ! 1 \<noteq> ''Youth''"
    by code_simp
  from full_name_normalised [OF built]
  have stripped: "strip (full_name tab_record) = full_name tab_record"
    and second: "\<forall>c. classification tab_record = Some c \<longrightarrow>
             1 < length (split_on ''|'' (full_name tab_record))
             \<and> c = strip (split_on ''|'' (full_name tab_record) ! 1)"
    by blast+
  from second fields(3) have "strip (split_on ''|'' (full_name tab_record) ! 1) = ''Youth''"
    by simp
  with built fields stripped raw show ?thesis by blast
qed

text \<open>
  C6, as stated, fails on the sample row: the tab between \<open>Tour\<close> and \<open>de\<close> is
  removed, not turned into a space, and so is the carriage return before the bar.
\<close>

theorem tab_becomes_space_counterexample:
  "map_sum id (map_option full_name) (RiderResult_init sample_utilities tab_row)
     = Inr (Some (''Tourde France| '' @ [CHR 0xA0] @ ''Youth''))
   \<and> spec_collapse (strip (cell_text (tab_row ! 5)))
     = ''Tour de France |  '' @ [CHR 0xA0] @ ''Youth''
   \<and> map_sum id (map_option full_name) (RiderResult_init sample_utilities tab_row)
     \<noteq> Inr (Some (spec_collapse (strip (cell_text (tab_row ! 5)))))"
  by code_simp

section \<open>The date\<close>

text \<open>
  C7. When \<open>parse\<close> raises ParserError on the text of the date cell and the text has
  three parts between dashes, the date is what \<open>parse\<close> returns on the same parts
  with \<open>01\<close> in place of a month that is zero and of a day that is zero.
\<close>

theorem parse_date_zero_component:
  assumes "parse U txt = Inl ParserError"
    and "split_on ''-'' txt = [y, m, d]"
    and "py_int m = Inr mi" and "py_int d = Inr di"
  shows "parse_date U txt =
           parse U (y @ ''-'' @ (if mi = 0 then ''01'' else m) @ ''-'' @ (if di = 0 then ''01'' else d))"
  using assms by (simp add: parse_date_def fix_component_def)

text \<open>The three dates of the claim, with the sample parser.\<close>

theorem parse_date_zero_component_witness:
  "parse sample_utilities ''2020-00-15'' = Inl ParserError
   \<and> parse_date sample_utilities ''2020-00-15'' = Inr \<lparr>year = 2020, month = 1, day = 15\<rparr>
   \<and> parse sample_utilities ''2020-03-00'' = Inl ParserError
   \<and> parse_date sample_utilities ''2020-03-00'' = Inr \<lparr>year = 2020, month = 3, day = 1\<rparr>
   \<and> parse sample_utilities ''2020-00-00'' = Inl ParserError
   \<and> parse_date sample_utilities ''2020-00-00'' = Inr \<lparr>year = 2020, month = 1, day = 1\<rparr>"
proof -
  have zero: "py_int ''00'' = Inr 0" and three: "py_int ''03'' = Inr 3"
    and fifteen: "py_int ''15'' = Inr 15"
    by code_simp+
  have fail: "parse sample_utilities ''2020-00-15'' = Inl ParserError"
    "parse sample_utilities ''2020-03-00'' = Inl ParserError"
    "parse sample_utilities ''2020-00-00'' = Inl ParserError"
    by code_simp+
  have parts: "split_on ''-'' ''2020-00-15'' = [''2020'', ''00'', ''15'']"
    "split_on ''-'' ''2020-03-00'' = [''2020'', ''03'', ''00'']"
    "split_on ''-'' ''2020-00-00'' = [''2020'', ''00'', ''00'']"
    by code_simp+
  have fixed: "parse sample_utilities ''2020-01-15'' = Inr \<lparr>year = 2020, month = 1, day = 15\<rparr>"
    "parse sample_utilities ''2020-03-01'' = Inr \<lparr>year = 2020, month = 3, day = 1\<rparr>"
    "parse sample_utilities ''2020-01-01'' = Inr \<lparr>year = 2020, month = 1, day = 1\<rparr>"
    by code_simp+
  from parse_date_zero_component [OF fail(1) parts(1) zero fifteen] fixed(1)
  have a: "parse_date sample_utilities ''2020-00-15'' = Inr \<lparr>year = 2020, month = 1, day = 15\<rparr>"
    by simp
  from parse_date_zero_component [OF fail(2) parts(2) three zero] fixed(2)
  have b: "parse_date sample_utilities ''2020-03-00'' = Inr \<lparr>year = 2020, month = 3, day = 1\<rparr>"
    by simp
  from parse_date_zero_component [OF fail(3) parts(3) zero zero] fixed(3)
  have c: "parse_date sample_utilities ''2020-00-00'' = Inr \<lparr>year = 2020, month = 1, day = 1\<rparr>"
    by simp
  from fail a b c show ?thesis by simp
qed

section \<open>The derived columns\<close>

lemma first_colour_find:
  "first_colour cols i = map_option capitalize (find (\<lambda>col. str_contains (col @ ''.'') i) cols)"
  by (induction cols) auto

lemma capitalize_eq_Nil: "capitalize s = [] \<longleftrightarrow> s = []"
  by (cases s) (simp_all add: capitalize_def)

lemma jersey_colour_of_find:
  "jersey_colour_of U ic =
     (case ic of None \<Rightarrow> None
      | Some i \<Rightarrow> map_option capitalize (find (\<lambda>col. str_contains (col @ ''.'') i) (colour_icons U)))"
proof (cases ic)
  case None
  then show ?thesis by (simp add: jersey_colour_of_def)
next
  case (Some i)
  have "find (\<lambda>col. str_contains (col @ ''.'') []) cols = None" for cols :: "string list"
    by (induction cols) auto
  with Some show ?thesis
    by (cases "i = []") (simp_all add: jersey_colour_of_def first_colour_find)
qed

lemma not_str_jersey:
  assumes "[] \<notin> set (colour_icons U)"
  shows "not_str (jersey_colour_of U ic) \<longleftrightarrow> jersey_colour_of U ic = None"
proof -
  have "find P (colour_icons U) \<noteq> Some []" for P
    using assms by (metis find_Some_iff nth_mem)
  then show ?thesis
    unfolding not_str_def jersey_colour_of_find
    by (auto simp: capitalize_eq_Nil split: option.splits)
qed

text \<open>
  C9. Provided no colour token of the table is the empty string, \<open>jersey_colour\<close> is
  the capitalised first token of the list, in its order, such that the token followed
  by a dot occurs in the icon; \<open>profile\<close> is the entry of the icon in the profile
  table when no token matched, and None otherwise; so the two are never both present.
\<close>

theorem jersey_colour_excludes_profile:
  assumes "[] \<notin> set (colour_icons U)"
  shows "jersey_colour (results_series U r) =
           (case icon r of None \<Rightarrow> None
            | Some i \<Rightarrow> map_option capitalize
                (find (\<lambda>col. str_contains (col @ ''.'') i) (colour_icons U)))
       \<and> profile (results_series U r) =
           (case icon r of None \<Rightarrow> None
            | Some i \<Rightarrow>
                if find (\<lambda>col. str_contains (col @ ''.'') i) (colour_icons U) = None
                then profile_icon_map U i else None)
       \<and> \<not> (jersey_colour (results_series U r) \<noteq> None \<and> profile (results_series U r) \<noteq> None)"
proof -
  have j: "jersey_colour (results_series U r) = jersey_colour_of U (icon r)"
    by (simp add: results_series_def Let_def)
  have p: "profile (results_series U r) = profile_of U (icon r) (jersey_colour_of U (icon r))"
    by (simp add: results_series_def Let_def)
  have p': "profile_of U (icon r) (jersey_colour_of U (icon r)) =
      (if jersey_colour_of U (icon r) = None
       then (case icon r of None \<Rightarrow> None | Some i \<Rightarrow> profile_icon_map U i) else None)"
    by (simp add: profile_of_def not_str_jersey [OF assms])
  show ?thesis
    unfolding j p p' by (auto simp: jersey_colour_of_find split: option.splits)
qed

text \<open>A jersey icon and a profile icon with the sample tables.\<close>

theorem jersey_colour_excludes_profile_witness:
  "[] \<notin> set (colour_icons sample_utilities)
   \<and> jersey_colour (results_series sample_utilities (icon_record (Some ''yellow.png''))) = Some ''Yellow''
   \<and> profile (results_series sample_utilities (icon_record (Some ''yellow.png''))) = None
   \<and> jersey_colour (results_series sample_utilities (icon_record (Some ''Lagtempo.png''))) = None
   \<and> profile (results_series sample_utilities (icon_record (Some ''Lagtempo.png''))) = Some ''TTT''
   \<and> \<not> (jersey_colour (results_series sample_utilities (icon_record (Some ''yellow.png''))) \<noteq> None
        \<and> profile (results_series sample_utilities (icon_record (Some ''yellow.png''))) \<noteq> None)"
proof -
  have tokens: "[] \<notin> set (colour_icons sample_utilities)"
    by code_simp
  have vals:
    "jersey_colour (results_series sample_utilities (icon_record (Some ''yellow.png''))) = Some ''Yellow''"
    "profile (results_series sample_utilities (icon_record (Some ''yellow.png''))) = None"
    "jersey_colour (results_series sample_utilities (icon_record (Some ''Lagtempo.png''))) = None"
    "profile (results_series sample_utilities (icon_record (Some ''Lagtempo.png''))) = Some ''TTT''"
    by code_simp+
  from jersey_colour_excludes_profile [OF tokens, of "icon_record (Some ''yellow.png'')"]
  have "\<not> (jersey_colour (results_series sample_utilities (icon_record (Some ''yellow.png''))) \<noteq> None
        \<and> profile (results_series sample_utilities (icon_record (Some ''yellow.png''))) \<noteq> None)"
    by blast
  with tokens vals show ?thesis by blast
qed

text \<open>
  C1, as amended. \<open>tt\<close> is Python's \<open>itt or ttt\<close>, which gives its second operand
  when the first is None or False: \<open>tt\<close> is never absent; when \<open>itt\<close> is absent,
  \<open>ttt\<close> is False and so is \<open>tt\<close>; when \<open>itt\<close> is False and \<open>ttt\<close> is True,
  \<open>tt\<close> is True.
\<close>

theorem tt_is_python_or:
  "(itt (results_series U r) = None \<longrightarrow>
      ttt (results_series U r) = Some False \<and> tt (results_series U r) = Some False)
   \<and> (itt (results_series U r) = Some False \<and> ttt (results_series U r) = Some True \<longrightarrow>
      tt (results_series U r) = Some True)
   \<and> tt (results_series U r)
       = Some (itt (results_series U r) = Some True \<or> ttt (results_series U r) = Some True)"
proof -
  let ?s = "results_series U r"
  have team: "ttt ?s = Some (profile ?s = Some ''TTT'')"
    by (simp add: results_series_def Let_def)
  have single: "itt ?s = profile_flag (str_contains ''ITT'') (profile ?s)"
    by (simp add: results_series_def Let_def)
  have either: "tt ?s = py_or (itt ?s) (ttt ?s)"
    by (simp add: results_series_def Let_def)
  have unknown: "profile ?s \<noteq> Some ''TTT''" if "itt ?s = None"
    using that unfolding single by (auto simp: profile_flag_def not_str_def split: if_splits)
  from unknown team show ?thesis
    unfolding either by (auto simp: py_or_def)
qed

text \<open>A record without icon, and a record with the icon of a team time trial.\<close>

theorem tt_is_python_or_witness:
  "itt (results_series sample_utilities (icon_record None)) = None
   \<and> ttt (results_series sample_utilities (icon_record None)) = Some False
   \<and> tt (results_series sample_utilities (icon_record None)) = Some False
   \<and> itt (results_series sample_utilities (icon_record (Some ''Lagtempo.png''))) = Some False
   \<and> ttt (results_series sample_utilities (icon_record (Some ''Lagtempo.png''))) = Some True
   \<and> tt (results_series sample_utilities (icon_record (Some ''Lagtempo.png''))) = Some True"
proof -
  have absent: "itt (results_series sample_utilities (icon_record None)) = None"
    by code_simp
  have team: "itt (results_series sample_utilities (icon_record (Some ''Lagtempo.png''))) = Some False"
    "ttt (results_series sample_utilities (icon_record (Some ''Lagtempo.png''))) = Some True"
    by code_simp+
  from tt_is_python_or [of sample_utilities "icon_record None"] absent
  have a: "ttt (results_series sample_utilities (icon_record None)) = Some False"
    "tt (results_series sample_utilities (icon_record None)) = Some False"
    by blast+
  from tt_is_python_or [of sample_utilities "icon_record (Some ''Lagtempo.png'')"] team
  have b: "tt (results_series sample_utilities (icon_record (Some ''Lagtempo.png''))) = Some True"
    by blast
  from absent team a b show ?thesis by blast
qed

text \<open>
  C1, as stated, fails on a record without icon: \<open>itt\<close> is absent, \<open>ttt\<close> is False,
  and \<open>tt\<close> is False, not absent.
\<close>

theorem tt_absent_counterexample:
  "itt (results_series sample_utilities (icon_record None)) = None
   \<and> ttt (results_series sample_utilities (icon_record None)) = Some False
   \<and> tt (results_series sample_utilities (icon_record None)) = Some False
   \<and> tt (results_series sample_utilities (icon_record None)) \<noteq> None"
  by code_simp

section \<open>The side table\<close>

text \<open>
  C4. The claim has the extractor return a record without nation and cities when the
  table has neither \<open>Nation\<close> nor \<open>Where\<close>. Line 233 then looks up \<open>Where\<close>
  unguarded: the extractor raises KeyError, before the guarded lookup of lines 235 to
  241 is reached.
\<close>

theorem missing_nation_and_where_raises:
  assumes "\<not> has_key tbl ''Nation''" and "\<not> has_key tbl ''Where''"
  shows "race_info_of U yr tbl = Inl KeyError"
  using assms by (simp add: race_info_of_def nation_of_def row_of_def has_key_def)

theorem missing_nation_and_where_raises_witness:
  "\<not> has_key no_nation_table ''Nation'' \<and> \<not> has_key no_nation_table ''Where''
   \<and> race_info_of sample_utilities ''2021'' no_nation_table = Inl KeyError"
proof -
  have keys: "\<not> has_key no_nation_table ''Nation''" "\<not> has_key no_nation_table ''Where''"
    by code_simp+
  from missing_nation_and_where_raises [OF keys, of sample_utilities "''2021''"] keys
  show ?thesis by blast
qed

text \<open>
  \<open>int\<close> on a non-empty text of numeric characters: its decimal value when all of
  them are decimal digits, ValueError otherwise.
\<close>

lemma split_acc_no_sep: "c \<notin> set s \<Longrightarrow> split_acc [c] acc s = [rev acc @ s]"
  by (induction s arbitrary: acc) auto

lemma numeric_not_space: "isnumeric_char c \<Longrightarrow> \<not> isspace c"
  by (auto simp: isnumeric_char_def isspace_def Let_def)

lemma numeric_not_sign:
  "isnumeric_char c \<Longrightarrow> c \<noteq> CHR ''-'' \<and> c \<noteq> CHR ''+'' \<and> c \<noteq> CHR ''_''"
  by (auto simp: isnumeric_char_def Let_def)

lemma py_int_numeric:
  assumes "ds \<noteq> []" and "list_all isnumeric_char ds"
  shows "py_int ds = (if list_all isdecimal_char ds then Inr (digits_val ds) else Inl ValueError)"
proof -
  from assms have "isnumeric_char (hd ds)" "isnumeric_char (last ds)"
    by (auto simp: list_all_iff)
  then have "strip ds = ds"
    by (intro strip_fixed) (simp add: numeric_not_space)
  moreover obtain c cs where ds: "ds = c # cs" using assms(1) by (cases ds) auto
  moreover from assms(2) have "CHR ''_'' \<notin> set ds"
    using numeric_not_sign by (auto simp: list_all_iff)
  then have "split_on ''_'' ds = [ds]"
    by (simp add: split_on_def split_acc_no_sep)
  then have "int_body ds =
      (if list_all isdecimal_char ds then Inr (digits_val ds) else Inl ValueError)"
    using assms(1) by (simp add: int_body_def isdecimal_def)
  moreover from assms(2) ds have "c \<noteq> CHR ''-''" "c \<noteq> CHR ''+''"
    using numeric_not_sign by auto
  ultimately show ?thesis
    by (simp add: py_int_def)
qed

lemma py_int_Nil: "py_int [] = Inl ValueError"
  by (simp add: py_int_def strip_def)

text \<open>
  C3. The claim gives stage number 0 to every value that contains \<open>Prologue\<close>, with
  or without digits. Line 259 runs first and converts the numeric characters of the
  value: when there is none, \<open>int('')\<close> raises ValueError and line 261 is never
  reached; when one of them is not a decimal digit, \<open>int\<close> raises ValueError as
  well. When they are decimal digits, and at least one, the number is 0 for a prologue
  and the value of the digits otherwise.
\<close>

theorem stage_num_of_what:
  assumes "map_of tbl ''What'' = Some r"
  shows "stage_num_of tbl =
           (if filter isnumeric_char (info_value r) = [] then Inl ValueError
            else if \<not> list_all isdecimal_char (filter isnumeric_char (info_value r))
            then Inl ValueError
            else Inr (Some (if str_contains ''Prologue'' (info_value r) then 0
                            else digits_val (filter isnumeric_char (info_value r)))))"
proof (cases "filter isnumeric_char (info_value r) = []")
  case True
  with assms show ?thesis by (simp add: stage_num_of_def py_int_Nil)
next
  case False
  have "list_all isnumeric_char (filter isnumeric_char (info_value r))"
    by (simp add: list_all_iff)
  from py_int_numeric [OF False this] False assms show ?thesis
    by (simp add: stage_num_of_def)
qed

text \<open>
  The value \<open>Prologue\<close> makes the whole extractor raise; \<open>Stage 5\<close> gives 5,
  \<open>Prologue 1\<close> gives 0, and \<open>Stage 5\<close> followed by a superscript two raises.
\<close>

theorem stage_num_of_what_witness:
  "map_of prologue_table ''What'' = Some (info_text ''Prologue'')
   \<and> str_contains ''Prologue'' (info_value (info_text ''Prologue''))
   \<and> stage_num_of prologue_table = Inl ValueError
   \<and> race_info_of sample_utilities ''2021'' prologue_table = Inl ValueError
   \<and> map_sum id race_stage_num (race_info_of sample_utilities ''2021'' (stage_table ''Stage 5''))
       = Inr (Some 5)
   \<and> map_sum id race_stage_num (race_info_of sample_utilities ''2021'' (stage_table ''Prologue 1''))
       = Inr (Some 0)
   \<and> race_info_of sample_utilities ''2021'' (stage_table (''Stage 5'' @ [CHR 0xB2]))
       = Inl ValueError"
proof -
  have what: "map_of prologue_table ''What'' = Some (info_text ''Prologue'')"
    by code_simp
  have none: "filter isnumeric_char (info_value (info_text ''Prologue'')) = []"
    by code_simp
  have prologue: "str_contains ''Prologue'' (info_value (info_text ''Prologue''))"
    by code_simp
  from stage_num_of_what [OF what] none
  have raised: "stage_num_of prologue_table = Inl ValueError"
    by simp
  have whole: "race_info_of sample_utilities ''2021'' prologue_table = Inl ValueError"
    "map_sum id race_stage_num (race_info_of sample_utilities ''2021'' (stage_table ''Stage 5''))
       = Inr (Some 5)"
    "map_sum id race_stage_num (race_info_of sample_utilities ''2021'' (stage_table ''Prologue 1''))
       = Inr (Some 0)"
    "race_info_of sample_utilities ''2021'' (stage_table (''Stage 5'' @ [CHR 0xB2]))
       = Inl ValueError"
    by code_simp+
  from what prologue raised whole show ?thesis by blast
qed

end
